theory Spec2Isabelle
  imports Complex_Main
begin

section \<open>Data model\<close>

text \<open>
  The planning core works on a JSON document \<open>monthly_data\<close>: month label, then item id,
  then field name, then a number. Quantities are modelled as exact rationals (the data files
  hold integers, and the only division is the mean of a few of them). A month label
  \<open>"%Y-%m"\<close> is the pair (year, month); \<open>"2026-01"\<close> is \<open>(2026, 1)\<close>. The field names
  of the source are Japanese strings; each constructor of \<open>field\<close> stands for one of them:
  \<open>Receipt\<close> (received into stock), \<open>Issue\<close> (issued from stock), \<open>Stock\<close> (actual ending
  stock), \<open>Predicted_stock\<close> (recorded predicted ending stock), \<open>Current_stock\<close>,
  \<open>Incoming_expected\<close> (in transit), \<open>Arranged\<close> (already arranged) and \<open>Usage_forecast\<close>.
  The per-month dictionary of items keeps its insertion order (the accuracy review iterates
  over it), so it is an association list; a payload is only ever looked up by key.
\<close>

type_synonym item_id = string

type_synonym month = "nat \<times> nat"

datatype field =
  Receipt | Issue | Stock | Predicted_stock | Current_stock
  | Incoming_expected | Arranged | Usage_forecast

type_synonym payload = "field \<rightharpoonup> rat"

type_synonym month_payload = "(item_id \<times> payload) list"

type_synonym monthly_data = "month \<rightharpoonup> month_payload"

datatype py_error = KeyError | IndexError | ValueError

text \<open>A master item, with the three keys the planning functions read by subscript.\<close>

record master_item =
  m_item_id :: item_id
  m_safety_stock :: rat
  m_max_stock :: rat

text \<open>\<open>monthly_data.get(month, {}).get(item_id, {})\<close>\<close>

definition item_payload :: "monthly_data \<Rightarrow> month \<Rightarrow> item_id \<Rightarrow> payload" where
  "item_payload monthly_data m i =
     (case monthly_data m of
        None \<Rightarrow> Map.empty
      | Some mp \<Rightarrow> (case map_of mp i of None \<Rightarrow> Map.empty | Some p \<Rightarrow> p))"


text \<open>\<open>d[key]\<close>, which raises KeyError on an absent key.\<close>

definition subscript :: "('k \<rightharpoonup> 'v) \<Rightarrow> 'k \<Rightarrow> py_error + 'v" where
  "subscript d k = (case d k of None \<Rightarrow> Inl KeyError | Some v \<Rightarrow> Inr v)"

definition and_then :: "py_error + 'a \<Rightarrow> ('a \<Rightarrow> py_error + 'b) \<Rightarrow> py_error + 'b" where
  "and_then r f = (case r of Inl e \<Rightarrow> Inl e | Inr v \<Rightarrow> f v)"

text \<open>
  \<open>round(x, 1)\<close>: to one decimal place, a tie going to the even neighbour. (On binary
  floats a tie exists only where the value is exactly representable; no statement below
  is evaluated at a tie.)
\<close>

definition round1 :: "rat \<Rightarrow> rat" where
  "round1 x =
     (let y = x * 10; f = \<lfloor>y\<rfloor>; d = y - of_int f
      in of_int (if d < 1 / 2 then f
                 else if 1 / 2 < d then f + 1
                 else if even f then f else f + 1) / 10)"

section \<open>Order planning (utils/order\_planning.py)\<close>





text \<open>
  A row of the order table: item, next month's ending stock, the usage forecast of the month
  after, the order quantity, the ending stock two months ahead, safety stock, max stock.
\<close>

record order_row =
  o_item :: item_id
  o_next_month_end :: rat
  o_next_next_usage :: rat
  o_order_qty :: rat
  o_next_next_end :: rat
  o_safety_stock :: rat
  o_max_stock :: rat



text \<open>
  The four reason tags: shortage risk, excess-stock risk, abnormal order quantity,
  insufficient stock next month.
\<close>

datatype reason = Shortage_risk | Excess_risk | Abnormal_order | Next_month_shortage

definition discussion_reasons ::
  "'a order_row_scheme \<Rightarrow> rat \<Rightarrow> rat \<Rightarrow> rat \<Rightarrow> int \<times> reason list"
where
  "discussion_reasons row normal_order_avg next_month_buffer factor =
     (let reasons = [];
          priority = 99;
          next_next_end = o_next_next_end row;
          safety_stock = o_safety_stock row;
          max_stock = o_max_stock row;
          order_qty = o_order_qty row;
          (reasons, priority) =
            (if next_next_end < safety_stock
             then (reasons @ [Shortage_risk], min priority 1) else (reasons, priority));
          (reasons, priority) =
            (if next_next_end > max_stock
             then (reasons @ [Excess_risk], min priority 2) else (reasons, priority));
          (reasons, priority) =
            (if normal_order_avg > 0
             then (if order_qty = 0 \<or> order_qty \<ge> normal_order_avg * 2
                   then (reasons @ [Abnormal_order], min priority 3) else (reasons, priority))
             else if order_qty = 0
             then (reasons @ [Abnormal_order], min priority 3) else (reasons, priority));
          (reasons, priority) =
            (if next_month_buffer < safety_stock * factor
             then (reasons @ [Next_month_shortage], min priority 3) else (reasons, priority));
          priority = (if priority = 99 then 4 else priority)
      in (priority, reasons))"

section \<open>The discussion list (build\_discussion\_rows in app.py)\<close>



section \<open>Two-month forecast (utils/forecast.py)\<close>

record inventory_row =
  f_item :: item_id
  f_current_stock :: rat
  f_incoming :: rat
  f_usage_current :: rat
  f_month_end :: rat
  f_prepared :: rat
  f_usage_next :: rat
  f_next_month_end :: rat
  f_safety_stock :: rat
  f_max_stock :: rat

text \<open>The body of the loop for one item: every lookup is a subscript.\<close>

definition forecast_item :: "monthly_data \<Rightarrow> master_item \<Rightarrow> py_error + inventory_row" where
  "forecast_item monthly_data item =
     (let i = m_item_id item in
      and_then (subscript monthly_data (2026, 1)) (\<lambda>current_month.
      and_then (subscript (map_of current_month) i) (\<lambda>current_data.
      and_then (subscript monthly_data (2026, 2)) (\<lambda>next_month.
      and_then (subscript (map_of next_month) i) (\<lambda>next_data.
      and_then (subscript current_data Current_stock) (\<lambda>current_stock.
      and_then (subscript current_data Incoming_expected) (\<lambda>incoming.
      and_then (subscript current_data Usage_forecast) (\<lambda>usage_current.
      let month_end_forecast = current_stock + incoming - usage_current in
      and_then (subscript next_data Arranged) (\<lambda>prepared.
      and_then (subscript next_data Usage_forecast) (\<lambda>usage_next.
      let next_month_end_forecast = month_end_forecast + prepared - usage_next in
      Inr \<lparr>f_item = i,
           f_current_stock = current_stock,
           f_incoming = incoming,
           f_usage_current = usage_current,
           f_month_end = month_end_forecast,
           f_prepared = prepared,
           f_usage_next = usage_next,
           f_next_month_end = next_month_end_forecast,
           f_safety_stock = m_safety_stock item,
           f_max_stock = m_max_stock item\<rparr>))))))))))"

fun calculate_inventory_forecast ::
  "monthly_data \<Rightarrow> master_item list \<Rightarrow> py_error + inventory_row list"
where
  "calculate_inventory_forecast monthly_data [] = Inr []"
| "calculate_inventory_forecast monthly_data (item # master_items) =
     and_then (forecast_item monthly_data item) (\<lambda>row.
     and_then (calculate_inventory_forecast monthly_data master_items) (\<lambda>results.
     Inr (row # results)))"

section \<open>Prediction review (utils/prediction\_review.py)\<close>



section \<open>The long-lead-time item (utils/dw309.py)\<close>




text \<open>The loop body shared by both passes of \<open>calculate_usage_average\<close>.\<close>

fun collect_present ::
  "monthly_data \<Rightarrow> item_id \<Rightarrow> field \<Rightarrow> month list \<Rightarrow> rat list \<Rightarrow> rat list"
where
  "collect_present monthly_data i k [] candidates = candidates"
| "collect_present monthly_data i k (m # ms) candidates =
     (case item_payload monthly_data m i k of
        None \<Rightarrow> collect_present monthly_data i k ms candidates
      | Some v \<Rightarrow> collect_present monthly_data i k ms (candidates @ [v]))"

definition calculate_usage_average :: "monthly_data \<Rightarrow> item_id \<Rightarrow> rat" where
  "calculate_usage_average monthly_data i =
     (let candidates =
            collect_present monthly_data i Usage_forecast [(2026, 1), (2026, 2), (2026, 3)] [];
          candidates =
            (if candidates = []
             then collect_present monthly_data i Issue [(2025, 10), (2025, 11), (2025, 12)]
                    candidates
             else candidates)
      in if candidates = [] then 0 else sum_list candidates / of_nat (length candidates))"









section \<open>The checks and the schedule, as the specification words them\<close>

text \<open>
  The four checks of the discussion-reason deriver, each with the priority it carries, and
  the lists of priorities and of tags of the checks that trigger on a row.
\<close>

definition check1 :: "'a order_row_scheme \<Rightarrow> bool" where
  "check1 row = (o_next_next_end row < o_safety_stock row)"

definition check2 :: "'a order_row_scheme \<Rightarrow> bool" where
  "check2 row = (o_next_next_end row > o_max_stock row)"

definition check3 :: "'a order_row_scheme \<Rightarrow> rat \<Rightarrow> bool" where
  "check3 row normal_order_avg =
     (o_order_qty row = 0 \<or> (normal_order_avg > 0 \<and> o_order_qty row \<ge> 2 * normal_order_avg))"

definition check4 :: "'a order_row_scheme \<Rightarrow> rat \<Rightarrow> rat \<Rightarrow> bool" where
  "check4 row next_month_buffer factor = (next_month_buffer < o_safety_stock row * factor)"


definition triggered_reasons :: "'a order_row_scheme \<Rightarrow> rat \<Rightarrow> rat \<Rightarrow> rat \<Rightarrow> reason list" where
  "triggered_reasons row normal_order_avg next_month_buffer factor =
     (if check1 row then [Shortage_risk] else [])
     @ (if check2 row then [Excess_risk] else [])
     @ (if check3 row normal_order_avg then [Abnormal_order] else [])
     @ (if check4 row next_month_buffer factor then [Next_month_shortage] else [])"





text \<open>The figures \<open>calculate_usage_average\<close> finds in its two reference windows.\<close>

definition forecast_figures :: "monthly_data \<Rightarrow> item_id \<Rightarrow> rat list" where
  "forecast_figures monthly_data i =
     List.map_filter (\<lambda>m. item_payload monthly_data m i Usage_forecast)
       [(2026, 1), (2026, 2), (2026, 3)]"

definition history_figures :: "monthly_data \<Rightarrow> item_id \<Rightarrow> rat list" where
  "history_figures monthly_data i =
     List.map_filter (\<lambda>m. item_payload monthly_data m i Issue)
       [(2025, 10), (2025, 11), (2025, 12)]"


text \<open>
  The records \<open>calculate_inventory_forecast\<close> subscripts for an item: the payloads of
  2026-01 and 2026-02 with the fields it reads from each.
\<close>

definition has_fields :: "monthly_data \<Rightarrow> month \<Rightarrow> item_id \<Rightarrow> field list \<Rightarrow> bool" where
  "has_fields monthly_data m i ks =
     (case monthly_data m of
        None \<Rightarrow> False
      | Some mp \<Rightarrow>
          (case map_of mp i of None \<Rightarrow> False | Some p \<Rightarrow> list_all (\<lambda>k. p k \<noteq> None) ks))"

definition forecast_ready :: "monthly_data \<Rightarrow> master_item \<Rightarrow> bool" where
  "forecast_ready monthly_data item =
     (has_fields monthly_data (2026, 1) (m_item_id item)
        [Current_stock, Incoming_expected, Usage_forecast]
      \<and> has_fields monthly_data (2026, 2) (m_item_id item) [Arranged, Usage_forecast])"

section \<open>Example data\<close>

definition example_row :: order_row where
  "example_row = \<lparr>o_item = ''DW-001'', o_next_month_end = 80, o_next_next_usage = 20,
     o_order_qty = 0, o_next_next_end = 60, o_safety_stock = 50, o_max_stock = 200\<rparr>"





definition history_data :: monthly_data where
  "history_data =
     [(2025, 10) \<mapsto> [(''DW-309-Mol'', [Issue \<mapsto> 100])],
      (2025, 11) \<mapsto> [(''DW-309-Mol'', [Issue \<mapsto> 100])],
      (2025, 12) \<mapsto> [(''DW-309-Mol'', [Issue \<mapsto> 101])]]"







definition mixed_data :: monthly_data where
  "mixed_data =
     [(2025, 10) \<mapsto> [(''DW-309-Mol'', [Issue \<mapsto> 100])],
      (2026, 1) \<mapsto> [(''DW-309-Mol'', [Usage_forecast \<mapsto> 30])],
      (2026, 3) \<mapsto> [(''DW-309-Mol'', [Usage_forecast \<mapsto> 40])]]"








section \<open>Rounding\<close>

lemma round1_of_int [simp]: "round1 (of_int n) = of_int n"
  by (simp add: round1_def Let_def)

lemma round1_zero [simp]: "round1 0 = 0"
  using round1_of_int [of 0] by simp


section \<open>The discussion-reason deriver\<close>

lemma discussion_reasons_snd:
  "snd (discussion_reasons row avg buf factor) = triggered_reasons row avg buf factor"
  by (auto simp: discussion_reasons_def triggered_reasons_def check1_def check2_def check3_def check4_def Let_def)




section \<open>The projection loop\<close>




















section \<open>The usage average\<close>

lemma collect_present_eq:
  "collect_present md i k ms candidates
     = candidates @ List.map_filter (\<lambda>m. item_payload md m i k) ms"
  by (induction ms arbitrary: candidates) (simp_all add: map_filter_simps split: option.splits)

lemma length_map_filter_le: "length (List.map_filter f xs) \<le> length xs"
  by (induction xs) (simp_all add: map_filter_simps split: option.splits)

lemma calculate_usage_average_eq:
  "calculate_usage_average md i =
     (if forecast_figures md i \<noteq> []
      then sum_list (forecast_figures md i) / of_nat (length (forecast_figures md i))
      else if history_figures md i \<noteq> []
      then sum_list (history_figures md i) / of_nat (length (history_figures md i))
      else 0)"
  by (simp add: calculate_usage_average_def collect_present_eq forecast_figures_def
      history_figures_def Let_def)

section \<open>Absent fields in the projection\<close>

lemma item_payload_empty [simp]: "item_payload Map.empty m i = Map.empty"
  by (simp add: item_payload_def)







section \<open>The two-month forecast and missing records\<close>

lemma forecast_item_ready:
  assumes "forecast_ready md item"
  shows "\<exists>row. forecast_item md item = Inr row \<and> f_item row = m_item_id item"
  using assms
  by (auto simp: forecast_ready_def has_fields_def forecast_item_def subscript_def
      and_then_def Let_def split: option.splits)

lemma forecast_item_not_ready:
  assumes "\<not> forecast_ready md item"
  shows "forecast_item md item = Inl KeyError"
  using assms
  by (auto simp: forecast_ready_def has_fields_def forecast_item_def subscript_def
      and_then_def Let_def split: option.splits)


lemma calculate_inventory_forecast_not_ready:
  "\<not> list_all (forecast_ready md) items \<Longrightarrow>
     calculate_inventory_forecast md items = Inl KeyError"
proof (induction items)
  case Nil
  then show ?case by simp
next
  case (Cons item items)
  show ?case
  proof (cases "forecast_ready md item")
    case True
    then obtain row where "forecast_item md item = Inr row"
      using forecast_item_ready [of md item] by auto
    moreover from True Cons have "calculate_inventory_forecast md items = Inl KeyError" by simp
    ultimately show ?thesis by (simp add: and_then_def)
  next
    case False
    then show ?thesis by (simp add: forecast_item_not_ready and_then_def)
  qed
qed

section \<open>Claims\<close>












text \<open>
  C5. Against a historical average of 0 the abnormal-order tag is given exactly to an order
  of 0; against a positive average it is given exactly to an order of 0 or of at least twice
  the average.
\<close>

theorem abnormal_order_asymmetric:
  "(avg = 0 \<longrightarrow>
      (Abnormal_order \<in> set (snd (discussion_reasons row avg buf factor))
         \<longleftrightarrow> o_order_qty row = 0))
   \<and> (avg > 0 \<longrightarrow>
      (Abnormal_order \<in> set (snd (discussion_reasons row avg buf factor))
         \<longleftrightarrow> o_order_qty row = 0 \<or> o_order_qty row \<ge> 2 * avg))"
  by (auto simp: discussion_reasons_snd triggered_reasons_def check3_def)

theorem abnormal_order_asymmetric_witness:
  "Abnormal_order \<in> set (snd (discussion_reasons example_row 0 80 1))
   \<and> Abnormal_order \<notin> set (snd (discussion_reasons (example_row\<lparr>o_order_qty := 5\<rparr>) 0 80 1))
   \<and> Abnormal_order \<in> set (snd (discussion_reasons (example_row\<lparr>o_order_qty := 20\<rparr>) 10 80 1))
   \<and> Abnormal_order \<notin> set (snd (discussion_reasons (example_row\<lparr>o_order_qty := 19\<rparr>) 10 80 1))"
  using abnormal_order_asymmetric [of 0 example_row 80 1]
    abnormal_order_asymmetric [of 0 "example_row\<lparr>o_order_qty := 5\<rparr>" 80 1]
    abnormal_order_asymmetric [of 10 "example_row\<lparr>o_order_qty := 20\<rparr>" 80 1]
    abnormal_order_asymmetric [of 10 "example_row\<lparr>o_order_qty := 19\<rparr>" 80 1]
  by (simp add: example_row_def)









text \<open>
  C9. The usage average of the long-lead-time projection is the mean of at most three
  figures from a fixed window: of the usage forecasts present in 2026-01 to 2026-03 if there
  is any; otherwise of the issues recorded in 2025-10 to 2025-12 if there is any; otherwise 0.
\<close>

theorem usage_average_window:
  "length (forecast_figures md i) \<le> 3 \<and> length (history_figures md i) \<le> 3
   \<and> (forecast_figures md i \<noteq> [] \<longrightarrow>
        calculate_usage_average md i
          = sum_list (forecast_figures md i) / of_nat (length (forecast_figures md i)))
   \<and> (forecast_figures md i = [] \<and> history_figures md i \<noteq> [] \<longrightarrow>
        calculate_usage_average md i
          = sum_list (history_figures md i) / of_nat (length (history_figures md i)))
   \<and> (forecast_figures md i = [] \<and> history_figures md i = [] \<longrightarrow>
        calculate_usage_average md i = 0)"
proof -
  have "length (forecast_figures md i) \<le> 3"
    using length_map_filter_le [of "\<lambda>m. item_payload md m i Usage_forecast"
        "[(2026, 1), (2026, 2), (2026, 3)]"]
    by (simp add: forecast_figures_def)
  moreover have "length (history_figures md i) \<le> 3"
    using length_map_filter_le [of "\<lambda>m. item_payload md m i Issue"
        "[(2025, 10), (2025, 11), (2025, 12)]"]
    by (simp add: history_figures_def)
  ultimately show ?thesis by (simp add: calculate_usage_average_eq)
qed

theorem usage_average_window_witness:
  "forecast_figures mixed_data ''DW-309-Mol'' = [30, 40]
   \<and> history_figures mixed_data ''DW-309-Mol'' = [100]
   \<and> calculate_usage_average mixed_data ''DW-309-Mol'' = 35
   \<and> forecast_figures history_data ''DW-309-Mol'' = []
   \<and> history_figures history_data ''DW-309-Mol'' = [100, 100, 101]
   \<and> calculate_usage_average history_data ''DW-309-Mol'' = 301 / 3
   \<and> forecast_figures Map.empty ''DW-309-Mol'' = []
   \<and> history_figures Map.empty ''DW-309-Mol'' = []
   \<and> calculate_usage_average Map.empty ''DW-309-Mol'' = 0"
proof -
  have f: "forecast_figures mixed_data ''DW-309-Mol'' = [30, 40]"
    "history_figures mixed_data ''DW-309-Mol'' = [100]"
    "forecast_figures history_data ''DW-309-Mol'' = []"
    "history_figures history_data ''DW-309-Mol'' = [100, 100, 101]"
    "forecast_figures Map.empty ''DW-309-Mol'' = []"
    "history_figures Map.empty ''DW-309-Mol'' = []"
    by code_simp+
  from usage_average_window [of mixed_data "''DW-309-Mol''"]
    usage_average_window [of history_data "''DW-309-Mol''"]
    usage_average_window [of Map.empty "''DW-309-Mol''"]
  show ?thesis by (simp add: f)
qed




end
